theory Spec2Isabelle
  imports Complex_Main
begin

section \<open>Nearest-centroid assignment of sales records (project.py)\<close>

text \<open>
  Numbers: Python floats are modelled as \<^typ>\<open>real\<close>, so IEEE rounding, infinities and
  NaN operands are outside the model. The one place where the program itself produces a
  NaN (pandas' mean of an empty column) is modelled as \<open>None\<close> of \<^typ>\<open>real option\<close>.
  Cluster numbers are Python ints, here \<^typ>\<open>nat\<close>.
\<close>

subsection \<open>Errors\<close>

datatype py_error = ValueError | ZeroDivisionError | KeyError | TypeError

subsection \<open>Distances and assignment\<close>

text \<open>\<^verbatim>\<open>return [abs(omset - centroid) for centroid in centroids]\<close>\<close>

definition calculate_distances :: "real \<Rightarrow> real list \<Rightarrow> real list" where
  "calculate_distances omset centroids = map (\<lambda>centroid. \<bar>omset - centroid\<bar>) centroids"

text \<open>
  Python's builtin \<open>min\<close> of a sequence: raises ValueError on an empty one, otherwise scans
  from the left and replaces the current item only by a strictly smaller one.
\<close>

fun py_min :: "real list \<Rightarrow> py_error + real" where
  "py_min [] = Inl ValueError"
| "py_min (x # xs) = Inr (foldl (\<lambda>m y. if y < m then y else m) x xs)"

text \<open>
  \<open>list.index(v)\<close>: the position of the first item equal to \<open>v\<close>, ValueError when there
  is none.
\<close>

fun py_index :: "real list \<Rightarrow> real \<Rightarrow> py_error + nat" where
  "py_index [] v = Inl ValueError"
| "py_index (x # xs) v =
     (if x = v then Inr 0
      else case py_index xs v of Inl e \<Rightarrow> Inl e | Inr i \<Rightarrow> Inr (Suc i))"

text \<open>\<^verbatim>\<open>return distances.index(min(distances)) + 1\<close>\<close>

definition assign_cluster :: "real list \<Rightarrow> py_error + nat" where
  "assign_cluster distances =
     (case py_min distances of
        Inl e \<Rightarrow> Inl e
      | Inr m \<Rightarrow> (case py_index distances m of Inl e \<Rightarrow> Inl e | Inr i \<Rightarrow> Inr (i + 1)))"

text \<open>The centroids fixed in \<open>main\<close>.\<close>

definition centroids :: "real list" where
  "centroids = [424000.00, 915000.00, 689155580.85]"

subsection \<open>Records of the data frames\<close>

text \<open>
  A data frame is modelled as the list of its rows, each row a record of the columns the
  program reads. The flag columns hold whatever the JSON file holds; the program compares
  them with Python's \<open>==\<close>, which is defined for every value. The revenue column is
  text before \<open>load_data\<close> (the \<open>.str\<close> accessor is for text) and a number after it.
  The JSON data is a list of records. A frame that pandas builds from an empty list has
  no columns, and a column access on it raises KeyError: \<open>load_data\<close>, the first to
  read a column, does so on an empty list. The frame of results is built from one result
  for each loaded row, so it is never empty in a run; the functions that read it are
  modelled on a frame that has its columns.
\<close>

datatype json = JStr string | JNum real | JBool bool | JNull

record 'o sale =
  Data_id :: string
  Nama_Toko :: string
  nama_Produk :: string
  Omset :: 'o

record 'o row = "'o sale" +
  Kluster_1 :: json
  Kluster_2 :: json
  Kluster_3 :: json

record result = "real sale" +
  Calculated_Cluster :: nat
  Existing_Cluster :: "nat option"
  Distances :: "real list"

subsection \<open>Loading\<close>

text \<open>
  \<^verbatim>\<open>df['Omset'] = df['Omset'].str.replace(',', '').astype(float)\<close>

  \<open>str.replace\<close> with an empty replacement deletes every comma. The conversion of text
  to float is pandas' and Python's, not this program's: it is the parameter \<open>to_float\<close>,
  \<open>None\<close> where the conversion raises ValueError. One rejected value fails the whole
  column. \<open>clean_omset\<close> is the column operation; \<open>load_data\<close> reaches it through
  \<open>df['Omset']\<close>, which raises KeyError on the frame of an empty list.
\<close>

definition str_replace_comma :: "string \<Rightarrow> string" where
  "str_replace_comma s = filter (\<lambda>c. c \<noteq> CHR '','') s"

fun clean_omset :: "(string \<Rightarrow> real option) \<Rightarrow> string row list \<Rightarrow> py_error + real row list" where
  "clean_omset to_float [] = Inr []"
| "clean_omset to_float (r # rs) =
     (case to_float (str_replace_comma (Omset r)) of
        None \<Rightarrow> Inl ValueError
      | Some v \<Rightarrow>
          (case clean_omset to_float rs of
             Inl e \<Rightarrow> Inl e
           | Inr df \<Rightarrow>
               Inr (\<lparr>Data_id = Data_id r, Nama_Toko = Nama_Toko r,
                     nama_Produk = nama_Produk r, Omset = v, Kluster_1 = Kluster_1 r,
                     Kluster_2 = Kluster_2 r, Kluster_3 = Kluster_3 r\<rparr> # df)))"

definition load_data :: "(string \<Rightarrow> real option) \<Rightarrow> string row list \<Rightarrow> py_error + real row list" where
  "load_data to_float json_data =
     (if json_data = [] then Inl KeyError else clean_omset to_float json_data)"

text \<open>
  A reader of plain decimal text (optional sign, digits, optional point and digits, at
  least one digit). Python's \<open>float\<close> accepts every such text; the reader gives the
  exact decimal value, of which \<open>float\<close> gives the nearest binary64 number. It says
  which texts are plain decimals and instantiates \<open>to_float\<close> in examples; the forms
  of \<open>float\<close> beyond plain decimals (exponents, \<open>inf\<close>, \<open>nan\<close>, surrounding
  blanks, underscores) are not part of it.
\<close>

definition is_digit :: "char \<Rightarrow> bool" where
  "is_digit c = (48 \<le> (of_char c :: nat) \<and> (of_char c :: nat) \<le> 57)"

definition digits_value :: "string \<Rightarrow> nat" where
  "digits_value s = foldl (\<lambda>n c. 10 * n + ((of_char c :: nat) - 48)) 0 s"

definition unsigned_decimal :: "string \<Rightarrow> real option" where
  "unsigned_decimal s =
     (let ip = takeWhile (\<lambda>c. c \<noteq> CHR ''.'') s;
          fp = drop 1 (dropWhile (\<lambda>c. c \<noteq> CHR ''.'') s)
      in if list_all is_digit (ip @ fp) \<and> ip @ fp \<noteq> []
         then Some (real (digits_value ip) + real (digits_value fp) / 10 ^ length fp)
         else None)"

definition decimal_float :: "string \<Rightarrow> real option" where
  "decimal_float s =
     (case s of
        [] \<Rightarrow> None
      | c # t \<Rightarrow>
          if c = CHR ''-'' then map_option uminus (unsigned_decimal t)
          else if c = CHR ''+'' then unsigned_decimal t
          else unsigned_decimal s)"

subsection \<open>The loop of main\<close>

text \<open>
  The \<open>if\<close>/\<open>elif\<close> chain on the three flag columns; \<open>None\<close> is the initial value of
  \<open>existing_cluster\<close>.
\<close>

definition existing_cluster :: "json \<Rightarrow> json \<Rightarrow> json \<Rightarrow> nat option" where
  "existing_cluster k1 k2 k3 =
     (if k1 = JStr ''1'' then Some 1
      else if k2 = JStr ''1'' then Some 2
      else if k3 = JStr ''1'' then Some 3
      else None)"

definition process_row :: "real list \<Rightarrow> real row \<Rightarrow> py_error + result" where
  "process_row cs r =
     (let omset = Omset r;
          distances = calculate_distances omset cs
      in case assign_cluster distances of
           Inl e \<Rightarrow> Inl e
         | Inr assigned_cluster \<Rightarrow>
             Inr \<lparr>Data_id = Data_id r, Nama_Toko = Nama_Toko r,
                  nama_Produk = nama_Produk r, Omset = omset,
                  Calculated_Cluster = assigned_cluster,
                  Existing_Cluster = existing_cluster (Kluster_1 r) (Kluster_2 r) (Kluster_3 r),
                  Distances = distances\<rparr>)"

fun process_rows :: "real list \<Rightarrow> real row list \<Rightarrow> py_error + result list" where
  "process_rows cs [] = Inr []"
| "process_rows cs (r # rs) =
     (case process_row cs r of
        Inl e \<Rightarrow> Inl e
      | Inr x \<Rightarrow> (case process_rows cs rs of Inl e \<Rightarrow> Inl e | Inr xs \<Rightarrow> Inr (x # xs)))"

subsection \<open>Cluster analysis\<close>

text \<open>
  pandas' \<open>Series.mean\<close>: the sum over the count, and NaN (here \<open>None\<close>) for an empty
  column; it does not raise.
\<close>

definition mean :: "real list \<Rightarrow> real option" where
  "mean xs = (if xs = [] then None else Some (sum_list xs / real (length xs)))"

text \<open>
  \<open>collections.Counter\<close> is a dict: it keeps its keys in the order of their first
  insertion. \<open>most_common(n)\<close> is \<open>heapq.nlargest(n, items, key=count)\<close>, which is
  documented to equal \<open>sorted(items, key=count, reverse=True)[:n]\<close>: a stable sort by
  falling count, so that items of equal count stay in the order first met.
\<close>

fun counter_add :: "'a \<Rightarrow> ('a \<times> nat) list \<Rightarrow> ('a \<times> nat) list" where
  "counter_add x [] = [(x, 1)]"
| "counter_add x ((y, n) # c) =
     (if x = y then (y, n + 1) # c else (y, n) # counter_add x c)"

definition Counter :: "'a list \<Rightarrow> ('a \<times> nat) list" where
  "Counter xs = foldl (\<lambda>c x. counter_add x c) [] xs"

definition most_common :: "nat \<Rightarrow> ('a \<times> nat) list \<Rightarrow> ('a \<times> nat) list" where
  "most_common n c = take n (sort_key (\<lambda>(x, k). - int k) c)"

record profile =
  avg_omset :: "real option"
  characteristics :: string
  dominant_products :: "string list"

text \<open>The body of the loop over the clusters 1, 2, 3.\<close>

definition cluster_profile :: "result list \<Rightarrow> nat \<Rightarrow> profile" where
  "cluster_profile results_df cluster =
     (let cluster_data = filter (\<lambda>r. Calculated_Cluster r = cluster) results_df;
          avg = mean (map Omset cluster_data);
          product_counts = Counter (map nama_Produk cluster_data);
          top_products = most_common 3 product_counts;
          chars = (if cluster = 1 then ''Toko dengan penjualan rendah atau baru memulai''
                   else if cluster = 2 then ''Toko dengan stabilitas penjualan menengah''
                   else ''Toko dengan performa penjualan tinggi'')
      in \<lparr>avg_omset = avg, characteristics = chars,
          dominant_products = map fst top_products\<rparr>)"

definition analyze_cluster_characteristics :: "result list \<Rightarrow> (nat \<rightharpoonup> profile)" where
  "analyze_cluster_characteristics results_df =
     foldl (\<lambda>cluster_analysis cluster.
              cluster_analysis(cluster \<mapsto> cluster_profile results_df cluster))
       Map.empty [1, 2, 3]"

subsection \<open>Summary values of the report\<close>

text \<open>
  The \<open>'Value'\<close> list of \<open>summary_data\<close> in \<open>create_excel_report\<close>. A calculated cluster
  (an int) equals an existing cluster only when that is the same int; \<open>None\<close> equals no
  int. The third item divides by \<open>len(results_df)\<close>: with no rows both operands are the
  Python int 0 and the division raises ZeroDivisionError, which leaves the function.
\<close>

record summary =
  total_records :: nat
  matching_clusters :: nat
  match_percentage :: real
  calculated_counts :: "nat list"
  existing_counts :: "nat list"

definition matching :: "result list \<Rightarrow> nat" where
  "matching results_df =
     length (filter (\<lambda>r. Some (Calculated_Cluster r) = Existing_Cluster r) results_df)"

definition summary_values :: "result list \<Rightarrow> py_error + summary" where
  "summary_values results_df =
     (if length results_df = 0 then Inl ZeroDivisionError
      else Inr \<lparr>total_records = length results_df,
                matching_clusters = matching results_df,
                match_percentage =
                  (real (matching results_df) / real (length results_df)) * 100,
                calculated_counts =
                  map (\<lambda>c. length (filter (\<lambda>r. Calculated_Cluster r = c) results_df)) [1, 2, 3],
                existing_counts =
                  map (\<lambda>c. length (filter (\<lambda>r. Existing_Cluster r = Some c) results_df)) [1, 2, 3]\<rparr>)"

subsection \<open>The report\<close>

text \<open>
  \<open>worksheet.write\<close> of xlsxwriter with a float: a NaN raises TypeError unless the
  workbook was opened with the option \<open>nan_inf_to_errors\<close>, and line 95 opens it with
  no option.
\<close>

definition write_number :: "real option \<Rightarrow> py_error + real" where
  "write_number number = (case number of None \<Rightarrow> Inl TypeError | Some x \<Rightarrow> Inr x)"

text \<open>\<open>sep.join(items)\<close>\<close>

fun join :: "string \<Rightarrow> string list \<Rightarrow> string" where
  "join sep [] = []"
| "join sep [x] = x"
| "join sep (x # y # ys) = x @ sep @ join sep (y # ys)"

text \<open>
  The loop of lines 174 to 183: for each cluster the characteristic, the average revenue
  (written as a number) and the joined dominant products.
\<close>

record cluster_cells =
  cell_characteristics :: string
  cell_average_omset :: real
  cell_dominant_products :: string

fun write_cluster_info :: "(nat \<rightharpoonup> profile) \<Rightarrow> nat list \<Rightarrow> py_error + cluster_cells list" where
  "write_cluster_info cluster_analysis [] = Inr []"
| "write_cluster_info cluster_analysis (cluster # rest) =
     (case cluster_analysis cluster of
        None \<Rightarrow> Inl KeyError
      | Some cluster_info \<Rightarrow>
          (case write_number (avg_omset cluster_info) of
             Inl e \<Rightarrow> Inl e
           | Inr avg \<Rightarrow>
               (case write_cluster_info cluster_analysis rest of
                  Inl e \<Rightarrow> Inl e
                | Inr cells \<Rightarrow>
                    Inr (\<lparr>cell_characteristics = characteristics cluster_info,
                          cell_average_omset = avg,
                          cell_dominant_products =
                            join '', '' (dominant_products cluster_info)\<rparr> # cells))))"

text \<open>
  \<open>create_excel_report\<close>: the four sheets, in the order in which the function fills
  them. The file is saved by \<open>writer.close()\<close> at the end, so an exception on the way
  leaves no report; the result is then the exception alone.
\<close>

record report =
  detailed_results :: "result list"
  summary_statistics :: summary
  cluster_characteristics :: "cluster_cells list"
  mismatches :: "result list"
  centroid_values :: "real list"

definition create_excel_report ::
  "result list \<Rightarrow> real list \<Rightarrow> (nat \<rightharpoonup> profile) \<Rightarrow> py_error + report" where
  "create_excel_report results_df cs cluster_analysis =
     (case summary_values results_df of
        Inl e \<Rightarrow> Inl e
      | Inr summary_data \<Rightarrow>
          (case write_cluster_info cluster_analysis [1, 2, 3] of
             Inl e \<Rightarrow> Inl e
           | Inr cells \<Rightarrow>
               Inr \<lparr>detailed_results = results_df,
                    summary_statistics = summary_data,
                    cluster_characteristics = cells,
                    mismatches =
                      filter (\<lambda>r. Some (Calculated_Cluster r) \<noteq> Existing_Cluster r) results_df,
                    centroid_values = cs\<rparr>))"

text \<open>
  \<open>main\<close> after the file is read: load, cluster each row, analyse, report. Between
  analysis and report it prints each average with the format \<open>:,.2f\<close>, which prints a
  NaN as \<open>nan\<close> and does not raise.
\<close>

definition main :: "(string \<Rightarrow> real option) \<Rightarrow> string row list \<Rightarrow> py_error + report" where
  "main to_float json_data =
     (case load_data to_float json_data of
        Inl e \<Rightarrow> Inl e
      | Inr df \<Rightarrow>
          (case process_rows centroids df of
             Inl e \<Rightarrow> Inl e
           | Inr results \<Rightarrow>
               create_excel_report results centroids
                 (analyze_cluster_characteristics results)))"

subsection \<open>Vocabulary of the properties\<close>

text \<open>
  The position at which a value is first met in a list (the length of the list when it
  is never met), and the keys of the counter of a list in the order in which
  \<open>most_common\<close> ranks them, before the cut to \<open>n\<close> items.
\<close>

definition first_index :: "'a list \<Rightarrow> 'a \<Rightarrow> nat" where
  "first_index xs x = length (takeWhile (\<lambda>y. y \<noteq> x) xs)"

definition ranked :: "'a list \<Rightarrow> 'a list" where
  "ranked ps = map fst (sort_key (\<lambda>(x, k). - int k) (Counter ps))"

section \<open>Properties\<close>

subsection \<open>Minimum and first index\<close>

lemma foldl_min_eq: "foldl (\<lambda>m y. if y < m then y else m) x xs = Min (set (x # xs))"
proof (induction xs arbitrary: x)
  case Nil
  show ?case by simp
next
  case (Cons y ys)
  have "foldl (\<lambda>m y. if y < m then y else m) x (y # ys)
        = Min (set ((if y < x then y else x) # ys))"
    using Cons.IH by simp
  also have "\<dots> = Min (insert x (insert y (set ys)))"
  proof (cases "set ys = {}")
    case True
    then show ?thesis by (auto simp: min_def)
  next
    case False
    have "Min (insert x (insert y (set ys))) = min x (min y (Min (set ys)))"
      using False by simp
    moreover have "Min (set ((if y < x then y else x) # ys))
        = min (if y < x then y else x) (Min (set ys))"
      using False by simp
    ultimately show ?thesis by (auto simp: min_def)
  qed
  finally show ?case by simp
qed

lemma py_min_Min: "distances \<noteq> [] \<Longrightarrow> py_min distances = Inr (Min (set distances))"
  by (cases distances) (simp_all only: py_min.simps foldl_min_eq, simp)

lemma py_index_first:
  "v \<in> set xs \<Longrightarrow>
     \<exists>i. py_index xs v = Inr i \<and> i < length xs \<and> xs ! i = v \<and> (\<forall>j<i. xs ! j \<noteq> v)"
proof (induction xs)
  case Nil
  then show ?case by simp
next
  case (Cons x xs)
  show ?case
  proof (cases "x = v")
    case True
    then show ?thesis by simp
  next
    case False
    with Cons.prems have "v \<in> set xs" by simp
    then obtain i where i: "py_index xs v = Inr i" "i < length xs" "xs ! i = v"
      "\<forall>j<i. xs ! j \<noteq> v"
      using Cons.IH by blast
    have "\<forall>j<Suc i. (x # xs) ! j \<noteq> v"
    proof (intro allI impI)
      fix j assume "j < Suc i"
      then show "(x # xs) ! j \<noteq> v"
        using False i(4) by (cases j) simp_all
    qed
    with False i show ?thesis by simp
  qed
qed

lemma assign_cluster_first_min:
  assumes "distances \<noteq> []"
  shows "\<exists>i. assign_cluster distances = Inr (i + 1) \<and> i < length distances
           \<and> distances ! i = Min (set distances)
           \<and> (\<forall>j<i. distances ! j \<noteq> Min (set distances))"
proof -
  have "Min (set distances) \<in> set distances"
    using assms by (intro Min_in) simp_all
  from py_index_first [OF this] obtain i where
    "py_index distances (Min (set distances)) = Inr i" "i < length distances"
    "distances ! i = Min (set distances)" "\<forall>j<i. distances ! j \<noteq> Min (set distances)"
    by blast
  then show ?thesis
    using py_min_Min [OF assms] by (simp add: assign_cluster_def)
qed

subsection \<open>Cluster Assigner\<close>

text \<open>
  Claim C1. For every non-empty list of distances \<open>assign_cluster\<close> returns the 1-based
  position of the smallest distance; among several positions holding the minimum the
  lowest one is returned. In particular a revenue equal to centroid 2 has distance 0 to it
  and is assigned cluster 2: for the centroids of \<open>main\<close> at revenue 915000, and for any
  centroid triple whose first centroid differs from the second.
\<close>

theorem assign_cluster_argmin:
  "(distances \<noteq> [] \<longrightarrow>
      (\<exists>i<length distances. assign_cluster distances = Inr (i + 1)
          \<and> (\<forall>k<length distances. distances ! i \<le> distances ! k)
          \<and> (\<forall>j<i. distances ! i < distances ! j)))
   \<and> (c1 \<noteq> c2 \<longrightarrow> assign_cluster (calculate_distances c2 [c1, c2, c3]) = Inr 2)
   \<and> calculate_distances 915000 centroids ! 1 = 0
   \<and> assign_cluster (calculate_distances 915000 centroids) = Inr 2"
proof (intro conjI impI)
  assume ne: "distances \<noteq> []"
  from assign_cluster_first_min [OF ne] obtain i where i:
    "assign_cluster distances = Inr (i + 1)" "i < length distances"
    "distances ! i = Min (set distances)" "\<forall>j<i. distances ! j \<noteq> Min (set distances)"
    by blast
  have le: "Min (set distances) \<le> distances ! k" if "k < length distances" for k
    using that by (intro Min_le) simp_all
  have "distances ! i < distances ! j" if "j < i" for j
  proof -
    have "j < length distances" using that i(2) by simp
    from le [OF this] have "distances ! i \<le> distances ! j"
      by (simp add: i(3))
    moreover from i(4) that have "distances ! j \<noteq> distances ! i"
      by (simp add: i(3))
    ultimately show ?thesis by simp
  qed
  with i le show "\<exists>i<length distances. assign_cluster distances = Inr (i + 1)
          \<and> (\<forall>k<length distances. distances ! i \<le> distances ! k)
          \<and> (\<forall>j<i. distances ! i < distances ! j)"
    by auto
next
  assume "c1 \<noteq> c2"
  then show "assign_cluster (calculate_distances c2 [c1, c2, c3]) = Inr 2"
    by (simp add: assign_cluster_def calculate_distances_def)
next
  show "calculate_distances 915000 centroids ! 1 = 0"
    by (simp add: calculate_distances_def centroids_def)
next
  show "assign_cluster (calculate_distances 915000 centroids) = Inr 2"
    by (simp add: assign_cluster_def calculate_distances_def centroids_def)
qed

theorem assign_cluster_argmin_witness:
  "[5, 3, 3 :: real] \<noteq> [] \<and> assign_cluster [5, 3, 3] = Inr 2
   \<and> (424000 :: real) \<noteq> 915000
   \<and> assign_cluster (calculate_distances 915000 [424000, 915000, 689155580.85]) = Inr 2
   \<and> assign_cluster (calculate_distances 669500 centroids) = Inr 1"
  using assign_cluster_argmin [of "[5, 3, 3]" 424000 915000 "689155580.85"]
  by (simp add: assign_cluster_def calculate_distances_def centroids_def)

text \<open>
  Claim C8. An empty distance list makes \<open>assign_cluster\<close> fail: \<open>min\<close> raises Python's
  ValueError, the exception for an argument of the right type and an unusable value.
\<close>

theorem assign_cluster_empty: "assign_cluster [] = Inl ValueError"
  by (simp add: assign_cluster_def)

subsection \<open>Distance Engine\<close>

text \<open>
  Claim C9, as the program computes it. \<open>calculate_distances\<close> returns a list as long as
  the centroid list whose element \<open>i\<close> is the absolute difference of the revenue and
  centroid \<open>i\<close>; it is a function of its two arguments only. Revenue 500000 against the
  centroids of \<open>main\<close> gives the distances 76000, 415000 and 688655580.85, and cluster 1.
\<close>

theorem calculate_distances_elementwise:
  "length (calculate_distances omset cs) = length cs
   \<and> (\<forall>i<length cs. calculate_distances omset cs ! i = \<bar>omset - cs ! i\<bar>)
   \<and> calculate_distances 500000 [424000, 915000, 689155580.85]
       = [76000, 415000, 688655580.85]
   \<and> assign_cluster (calculate_distances 500000 centroids) = Inr 1"
  by (simp add: calculate_distances_def assign_cluster_def centroids_def)

theorem calculate_distances_elementwise_witness:
  "(2::nat) < length [424000, 915000, 689155580.85 :: real]
   \<and> calculate_distances 500000 [424000, 915000, 689155580.85] ! 2
       = \<bar>500000 - 689155580.85\<bar>"
  using calculate_distances_elementwise [of 500000 "[424000, 915000, 689155580.85]"]
  by (simp add: calculate_distances_def)

text \<open>
  The third distance of that scenario is not 689154580.85 (nor any value that starts
  with these digits): it is 499000 away from it.
\<close>

theorem calculate_distances_scenario_counterexample:
  "calculate_distances 500000 [424000, 915000, 689155580.85]
     \<noteq> [76000, 415000, 689154580.85]
   \<and> \<bar>calculate_distances 500000 [424000, 915000, 689155580.85] ! 2 - 689154580.85\<bar>
       = 499000"
  by (simp add: calculate_distances_def)

subsection \<open>Existing-Label Extractor\<close>

text \<open>
  Claim C2. The extractor returns 1, 2 or 3 for the first of the flags, taken in the
  order flag 1, flag 2, flag 3, that is the text \<open>"1"\<close>, also when several are; it
  returns none when no flag is that text. The comparison is one of text: the number 1, the
  boolean true and texts such as \<open>"1.0"\<close> or \<open>"01"\<close> do not count as set.
\<close>

theorem existing_cluster_first_match:
  "(k1 = JStr ''1'' \<longrightarrow> existing_cluster k1 k2 k3 = Some 1)
   \<and> (k1 \<noteq> JStr ''1'' \<and> k2 = JStr ''1'' \<longrightarrow> existing_cluster k1 k2 k3 = Some 2)
   \<and> (k1 \<noteq> JStr ''1'' \<and> k2 \<noteq> JStr ''1'' \<and> k3 = JStr ''1''
        \<longrightarrow> existing_cluster k1 k2 k3 = Some 3)
   \<and> (k1 \<noteq> JStr ''1'' \<and> k2 \<noteq> JStr ''1'' \<and> k3 \<noteq> JStr ''1''
        \<longrightarrow> existing_cluster k1 k2 k3 = None)
   \<and> existing_cluster (JNum 1) (JBool True) (JStr ''1.0'') = None
   \<and> existing_cluster (JStr ''01'') (JStr '' 1'') (JStr ''true'') = None"
  by (simp add: existing_cluster_def)

theorem existing_cluster_first_match_witness:
  "existing_cluster (JStr ''1'') (JStr ''1'') (JStr ''1'') = Some 1
   \<and> JStr ''0'' \<noteq> JStr ''1''
   \<and> existing_cluster (JStr ''0'') (JStr ''1'') (JStr ''1'') = Some 2
   \<and> existing_cluster (JStr ''0'') (JStr ''0'') (JStr ''1'') = Some 3
   \<and> existing_cluster (JStr ''0'') (JStr ''0'') (JStr ''0'') = None"
  using existing_cluster_first_match [of "JStr ''1''" "JStr ''1''" "JStr ''1''"]
    existing_cluster_first_match [of "JStr ''0''" "JStr ''1''" "JStr ''1''"]
    existing_cluster_first_match [of "JStr ''0''" "JStr ''0''" "JStr ''1''"]
    existing_cluster_first_match [of "JStr ''0''" "JStr ''0''" "JStr ''0''"]
  by simp

subsection \<open>Summary values\<close>

text \<open>
  Claim C6. With at least one record the match percentage is 100 times the number of
  records whose calculated cluster equals their existing cluster, divided by the number
  of records. With no record the division raises ZeroDivisionError: no percentage is
  computed.
\<close>

theorem match_percentage_value:
  "(results_df = [] \<longrightarrow> summary_values results_df = Inl ZeroDivisionError)
   \<and> (results_df \<noteq> [] \<longrightarrow>
        (\<exists>s. summary_values results_df = Inr s
           \<and> total_records s = length results_df
           \<and> matching_clusters s
               = card {i. i < length results_df
                        \<and> Some (Calculated_Cluster (results_df ! i))
                            = Existing_Cluster (results_df ! i)}
           \<and> match_percentage s
               = 100 * real (matching_clusters s) / real (total_records s)))"
  by (simp add: summary_values_def matching_def length_filter_conv_card)

theorem match_percentage_value_witness:
  "[\<lparr>Data_id = ''a'', Nama_Toko = ''t'', nama_Produk = ''p'', Omset = 500000,
      Calculated_Cluster = 1, Existing_Cluster = Some 1, Distances = []\<rparr>,
    \<lparr>Data_id = ''b'', Nama_Toko = ''t'', nama_Produk = ''q'', Omset = 900000,
      Calculated_Cluster = 2, Existing_Cluster = None, Distances = []\<rparr>] \<noteq> []
   \<and> (\<exists>s. summary_values
        [\<lparr>Data_id = ''a'', Nama_Toko = ''t'', nama_Produk = ''p'', Omset = 500000,
           Calculated_Cluster = 1, Existing_Cluster = Some 1, Distances = []\<rparr>,
         \<lparr>Data_id = ''b'', Nama_Toko = ''t'', nama_Produk = ''q'', Omset = 900000,
           Calculated_Cluster = 2, Existing_Cluster = None, Distances = []\<rparr>] = Inr s
      \<and> total_records s = 2 \<and> matching_clusters s = 1 \<and> match_percentage s = 50)
   \<and> summary_values [] = Inl ZeroDivisionError"
  using match_percentage_value [of "[]"]
  by (simp add: summary_values_def matching_def)

text \<open>
  Claim C7. A record none of whose flags is the text \<open>"1"\<close> gets the existing cluster
  none. Wherever such a result stands among the results and whatever its calculated
  cluster is, it adds one to the total of records and nothing to the matching clusters.
\<close>

theorem unlabelled_record_counts:
  "(Kluster_1 r \<noteq> JStr ''1'' \<and> Kluster_2 r \<noteq> JStr ''1'' \<and> Kluster_3 r \<noteq> JStr ''1''
      \<and> process_row cs r = Inr x \<longrightarrow> Existing_Cluster x = None)
   \<and> (Existing_Cluster x = None \<longrightarrow>
        (\<exists>s. summary_values (pre @ x # post) = Inr s
           \<and> total_records s = length (pre @ post) + 1
           \<and> matching_clusters s = matching (pre @ post)))"
  by (auto simp: process_row_def existing_cluster_def Let_def summary_values_def
      matching_def split: sum.splits)

theorem unlabelled_record_counts_witness:
  "Kluster_1 \<lparr>Data_id = ''b'', Nama_Toko = ''t'', nama_Produk = ''q'', Omset = 500000,
       Kluster_1 = JStr ''0'', Kluster_2 = JStr ''0'', Kluster_3 = JStr ''0''\<rparr> \<noteq> JStr ''1''
   \<and> process_row centroids
        \<lparr>Data_id = ''b'', Nama_Toko = ''t'', nama_Produk = ''q'', Omset = 500000,
         Kluster_1 = JStr ''0'', Kluster_2 = JStr ''0'', Kluster_3 = JStr ''0''\<rparr>
       = Inr \<lparr>Data_id = ''b'', Nama_Toko = ''t'', nama_Produk = ''q'', Omset = 500000,
              Calculated_Cluster = 1, Existing_Cluster = None,
              Distances = [76000, 415000, 688655580.85]\<rparr>
   \<and> (\<exists>s. summary_values
          ([\<lparr>Data_id = ''a'', Nama_Toko = ''t'', nama_Produk = ''p'', Omset = 424000,
             Calculated_Cluster = 1, Existing_Cluster = Some 1, Distances = []\<rparr>]
           @ \<lparr>Data_id = ''b'', Nama_Toko = ''t'', nama_Produk = ''q'', Omset = 500000,
               Calculated_Cluster = 1, Existing_Cluster = None,
               Distances = [76000, 415000, 688655580.85]\<rparr> # []) = Inr s
        \<and> total_records s = 2 \<and> matching_clusters s = 1)"
  using unlabelled_record_counts
    [of "\<lparr>Data_id = ''b'', Nama_Toko = ''t'', nama_Produk = ''q'', Omset = 500000,
         Kluster_1 = JStr ''0'', Kluster_2 = JStr ''0'', Kluster_3 = JStr ''0''\<rparr>"
        centroids
        "\<lparr>Data_id = ''b'', Nama_Toko = ''t'', nama_Produk = ''q'', Omset = 500000,
          Calculated_Cluster = 1, Existing_Cluster = None,
          Distances = [76000, 415000, 688655580.85]\<rparr>"
        "[\<lparr>Data_id = ''a'', Nama_Toko = ''t'', nama_Produk = ''p'', Omset = 424000,
           Calculated_Cluster = 1, Existing_Cluster = Some 1, Distances = []\<rparr>]"
        "[]"]
  by (simp add: process_row_def centroids_def calculate_distances_def assign_cluster_def
      existing_cluster_def matching_def summary_values_def)

subsection \<open>Cluster Analyzer\<close>

lemma analyze_lookup:
  "analyze_cluster_characteristics results_df c =
     (if c = 1 \<or> c = 2 \<or> c = 3 then Some (cluster_profile results_df c) else None)"
  by (simp add: analyze_cluster_characteristics_def)

lemma cluster_profile_existing_irrelevant:
  "cluster_profile (map (Existing_Cluster_update f) results_df) c
     = cluster_profile results_df c"
  by (simp add: cluster_profile_def filter_map o_def Let_def)

text \<open>
  Claim C3. For a cluster 1, 2 or 3 to which at least one record is assigned, the average
  revenue of the analysis is the sum of the revenues of the records whose calculated
  cluster it is, divided by their number. The existing labels play no part: changing them
  in any way leaves the analysis as it is.
\<close>

theorem avg_omset_is_mean:
  "(c \<in> {1, 2, 3} \<and> filter (\<lambda>r. Calculated_Cluster r = c) results_df \<noteq> [] \<longrightarrow>
      (\<exists>p. analyze_cluster_characteristics results_df c = Some p
         \<and> avg_omset p
             = Some ((\<Sum>r\<leftarrow>filter (\<lambda>r. Calculated_Cluster r = c) results_df. Omset r)
                     / real (length (filter (\<lambda>r. Calculated_Cluster r = c) results_df)))))
   \<and> analyze_cluster_characteristics (map (Existing_Cluster_update f) results_df)
       = analyze_cluster_characteristics results_df"
proof (intro conjI impI)
  assume a: "c \<in> {1, 2, 3} \<and> filter (\<lambda>r. Calculated_Cluster r = c) results_df \<noteq> []"
  then have "analyze_cluster_characteristics results_df c
      = Some (cluster_profile results_df c)"
    by (auto simp: analyze_lookup)
  moreover have "avg_omset (cluster_profile results_df c)
      = Some ((\<Sum>r\<leftarrow>filter (\<lambda>r. Calculated_Cluster r = c) results_df. Omset r)
              / real (length (filter (\<lambda>r. Calculated_Cluster r = c) results_df)))"
    using a by (simp add: cluster_profile_def mean_def Let_def)
  ultimately show "\<exists>p. analyze_cluster_characteristics results_df c = Some p
         \<and> avg_omset p
             = Some ((\<Sum>r\<leftarrow>filter (\<lambda>r. Calculated_Cluster r = c) results_df. Omset r)
                     / real (length (filter (\<lambda>r. Calculated_Cluster r = c) results_df)))"
    by simp
next
  show "analyze_cluster_characteristics (map (Existing_Cluster_update f) results_df)
       = analyze_cluster_characteristics results_df"
    by (rule ext) (simp only: analyze_lookup cluster_profile_existing_irrelevant)
qed

theorem avg_omset_is_mean_witness:
  "(1::nat) \<in> {1, 2, 3}
   \<and> filter (\<lambda>r. Calculated_Cluster r = 1)
        [\<lparr>Data_id = ''a'', Nama_Toko = ''s'', nama_Produk = ''p'', Omset = 100,
           Calculated_Cluster = 1, Existing_Cluster = Some 3, Distances = []\<rparr>,
         \<lparr>Data_id = ''b'', Nama_Toko = ''t'', nama_Produk = ''q'', Omset = 1000,
           Calculated_Cluster = 2, Existing_Cluster = Some 1, Distances = []\<rparr>,
         \<lparr>Data_id = ''c'', Nama_Toko = ''u'', nama_Produk = ''p'', Omset = 300,
           Calculated_Cluster = 1, Existing_Cluster = None, Distances = []\<rparr>] \<noteq> []
   \<and> (\<exists>p. analyze_cluster_characteristics
        [\<lparr>Data_id = ''a'', Nama_Toko = ''s'', nama_Produk = ''p'', Omset = 100,
           Calculated_Cluster = 1, Existing_Cluster = Some 3, Distances = []\<rparr>,
         \<lparr>Data_id = ''b'', Nama_Toko = ''t'', nama_Produk = ''q'', Omset = 1000,
           Calculated_Cluster = 2, Existing_Cluster = Some 1, Distances = []\<rparr>,
         \<lparr>Data_id = ''c'', Nama_Toko = ''u'', nama_Produk = ''p'', Omset = 300,
           Calculated_Cluster = 1, Existing_Cluster = None, Distances = []\<rparr>] 1 = Some p
      \<and> avg_omset p = Some 200)"
  using avg_omset_is_mean [of 1
        "[\<lparr>Data_id = ''a'', Nama_Toko = ''s'', nama_Produk = ''p'', Omset = 100,
           Calculated_Cluster = 1, Existing_Cluster = Some 3, Distances = []\<rparr>,
         \<lparr>Data_id = ''b'', Nama_Toko = ''t'', nama_Produk = ''q'', Omset = 1000,
           Calculated_Cluster = 2, Existing_Cluster = Some 1, Distances = []\<rparr>,
         \<lparr>Data_id = ''c'', Nama_Toko = ''u'', nama_Produk = ''p'', Omset = 300,
           Calculated_Cluster = 1, Existing_Cluster = None, Distances = []\<rparr>]" id]
  by simp

lemma write_cluster_info_nan:
  "\<forall>c\<in>set cs. cluster_analysis c \<noteq> None \<Longrightarrow>
   \<exists>c\<in>set cs. avg_omset (the (cluster_analysis c)) = None \<Longrightarrow>
   write_cluster_info cluster_analysis cs = Inl TypeError"
proof (induction cs)
  case Nil
  then show ?case by simp
next
  case (Cons c cs)
  from Cons.prems(1) obtain info where info: "cluster_analysis c = Some info"
    by auto
  show ?case
  proof (cases "avg_omset info")
    case None
    with info show ?thesis by (simp add: write_number_def)
  next
    case (Some v)
    with info Cons.prems have "write_cluster_info cluster_analysis cs = Inl TypeError"
      by (intro Cons.IH) auto
    with info Some show ?thesis by (simp add: write_number_def)
  qed
qed

text \<open>
  Claim C5, as the program behaves. For a cluster 1, 2 or 3 to which no record is
  assigned, the analysis does not raise and has an entry: the average revenue is the NaN
  that the mean of no values is, the dominant products are the empty list and the
  characteristic is the text fixed for the cluster. The NaN does not reach the report:
  writing it to the sheet raises TypeError, so that \<open>create_excel_report\<close>, given any
  results at all, ends with that exception and no report.
\<close>

theorem empty_cluster_breaks_report:
  "c \<in> {1, 2, 3} \<and> results_df \<noteq> [] \<and> (\<forall>r\<in>set results_df. Calculated_Cluster r \<noteq> c) \<longrightarrow>
     analyze_cluster_characteristics results_df c
       = Some \<lparr>avg_omset = None,
               characteristics =
                 (if c = 1 then ''Toko dengan penjualan rendah atau baru memulai''
                  else if c = 2 then ''Toko dengan stabilitas penjualan menengah''
                  else ''Toko dengan performa penjualan tinggi''),
               dominant_products = []\<rparr>
     \<and> create_excel_report results_df cs (analyze_cluster_characteristics results_df)
         = Inl TypeError"
proof
  assume a: "c \<in> {1, 2, 3} \<and> results_df \<noteq> []
    \<and> (\<forall>r\<in>set results_df. Calculated_Cluster r \<noteq> c)"
  then have "filter (\<lambda>r. Calculated_Cluster r = c) results_df = []"
    by (simp add: filter_empty_conv)
  then have "cluster_profile results_df c
       = \<lparr>avg_omset = None,
          characteristics =
            (if c = 1 then ''Toko dengan penjualan rendah atau baru memulai''
             else if c = 2 then ''Toko dengan stabilitas penjualan menengah''
             else ''Toko dengan performa penjualan tinggi''),
          dominant_products = []\<rparr>"
    by (simp add: cluster_profile_def mean_def Counter_def most_common_def)
  with a have entry: "analyze_cluster_characteristics results_df c
       = Some \<lparr>avg_omset = None,
               characteristics =
                 (if c = 1 then ''Toko dengan penjualan rendah atau baru memulai''
                  else if c = 2 then ''Toko dengan stabilitas penjualan menengah''
                  else ''Toko dengan performa penjualan tinggi''),
               dominant_products = []\<rparr>"
    by (auto simp: analyze_lookup)
  have "\<forall>k\<in>set [1, 2, 3]. analyze_cluster_characteristics results_df k \<noteq> None"
    by (simp add: analyze_lookup)
  moreover have "\<exists>k\<in>set [1, 2, 3].
      avg_omset (the (analyze_cluster_characteristics results_df k)) = None"
  proof (rule bexI [of _ c])
    show "avg_omset (the (analyze_cluster_characteristics results_df c)) = None"
      by (simp add: entry)
    show "c \<in> set [1, 2, 3]" using a by auto
  qed
  ultimately have "write_cluster_info (analyze_cluster_characteristics results_df) [1, 2, 3]
      = Inl TypeError"
    by (rule write_cluster_info_nan)
  moreover from a obtain s where "summary_values results_df = Inr s"
    by (auto simp: summary_values_def)
  ultimately have "create_excel_report results_df cs
      (analyze_cluster_characteristics results_df) = Inl TypeError"
    by (simp add: create_excel_report_def)
  with entry show "analyze_cluster_characteristics results_df c
       = Some \<lparr>avg_omset = None,
               characteristics =
                 (if c = 1 then ''Toko dengan penjualan rendah atau baru memulai''
                  else if c = 2 then ''Toko dengan stabilitas penjualan menengah''
                  else ''Toko dengan performa penjualan tinggi''),
               dominant_products = []\<rparr>
     \<and> create_excel_report results_df cs (analyze_cluster_characteristics results_df)
         = Inl TypeError"
    by simp
qed

theorem empty_cluster_breaks_report_witness:
  "(3::nat) \<in> {1, 2, 3}
   \<and> filter (\<lambda>r. Calculated_Cluster r = 3)
        [\<lparr>Data_id = ''a'', Nama_Toko = ''s'', nama_Produk = ''p'', Omset = 100,
           Calculated_Cluster = 1, Existing_Cluster = Some 3, Distances = []\<rparr>,
         \<lparr>Data_id = ''b'', Nama_Toko = ''t'', nama_Produk = ''q'', Omset = 1000,
           Calculated_Cluster = 2, Existing_Cluster = Some 1, Distances = []\<rparr>] = []
   \<and> analyze_cluster_characteristics
        [\<lparr>Data_id = ''a'', Nama_Toko = ''s'', nama_Produk = ''p'', Omset = 100,
           Calculated_Cluster = 1, Existing_Cluster = Some 3, Distances = []\<rparr>,
         \<lparr>Data_id = ''b'', Nama_Toko = ''t'', nama_Produk = ''q'', Omset = 1000,
           Calculated_Cluster = 2, Existing_Cluster = Some 1, Distances = []\<rparr>] 3
       = Some \<lparr>avg_omset = None,
               characteristics = ''Toko dengan performa penjualan tinggi'',
               dominant_products = []\<rparr>
   \<and> create_excel_report
        [\<lparr>Data_id = ''a'', Nama_Toko = ''s'', nama_Produk = ''p'', Omset = 100,
           Calculated_Cluster = 1, Existing_Cluster = Some 3, Distances = []\<rparr>,
         \<lparr>Data_id = ''b'', Nama_Toko = ''t'', nama_Produk = ''q'', Omset = 1000,
           Calculated_Cluster = 2, Existing_Cluster = Some 1, Distances = []\<rparr>]
        centroids
        (analyze_cluster_characteristics
          [\<lparr>Data_id = ''a'', Nama_Toko = ''s'', nama_Produk = ''p'', Omset = 100,
             Calculated_Cluster = 1, Existing_Cluster = Some 3, Distances = []\<rparr>,
           \<lparr>Data_id = ''b'', Nama_Toko = ''t'', nama_Produk = ''q'', Omset = 1000,
             Calculated_Cluster = 2, Existing_Cluster = Some 1, Distances = []\<rparr>])
       = Inl TypeError
   \<and> main decimal_float
        [\<lparr>Data_id = ''a'', Nama_Toko = ''s'', nama_Produk = ''p'', Omset = ''500,000'',
          Kluster_1 = JStr ''1'', Kluster_2 = JStr ''0'', Kluster_3 = JStr ''0''\<rparr>]
       = Inl TypeError"
  using empty_cluster_breaks_report [of 3
        "[\<lparr>Data_id = ''a'', Nama_Toko = ''s'', nama_Produk = ''p'', Omset = 100,
           Calculated_Cluster = 1, Existing_Cluster = Some 3, Distances = []\<rparr>,
         \<lparr>Data_id = ''b'', Nama_Toko = ''t'', nama_Produk = ''q'', Omset = 1000,
           Calculated_Cluster = 2, Existing_Cluster = Some 1, Distances = []\<rparr>]" centroids]
  by (simp add: main_def load_data_def str_replace_comma_def decimal_float_def
      unsigned_decimal_def digits_value_def is_digit_def process_row_def
      calculate_distances_def assign_cluster_def centroids_def existing_cluster_def
      create_excel_report_def summary_values_def matching_def analyze_lookup
      cluster_profile_def mean_def Counter_def most_common_def write_number_def)

subsection \<open>Data Loader\<close>

lemma clean_omset_fails_iff:
  "clean_omset to_float rows = Inl e
     \<longleftrightarrow> e = ValueError \<and> (\<exists>r\<in>set rows. to_float (str_replace_comma (Omset r)) = None)"
  by (induction rows) (auto split: option.splits sum.splits)

lemma clean_omset_Omset:
  "clean_omset to_float rows = Inr df \<Longrightarrow>
     map Omset df = map (\<lambda>r. the (to_float (str_replace_comma (Omset r)))) rows"
  by (induction rows arbitrary: df) (auto split: option.splits sum.splits)

lemma load_data_fails_iff:
  "load_data to_float rows = Inl e
     \<longleftrightarrow> (rows = [] \<and> e = KeyError)
          \<or> (e = ValueError
              \<and> (\<exists>r\<in>set rows. to_float (str_replace_comma (Omset r)) = None))"
  by (cases "rows = []") (auto simp: load_data_def clean_omset_fails_iff)

lemma load_data_Omset:
  "load_data to_float rows = Inr df \<Longrightarrow>
     map Omset df = map (\<lambda>r. the (to_float (str_replace_comma (Omset r)))) rows"
  by (cases "rows = []") (simp_all add: load_data_def clean_omset_Omset)

text \<open>
  Claim C10, as the program behaves. The loader deletes every comma of the revenue text,
  wherever it stands, before the conversion to float sees the text: a comma put at any
  place of a record's revenue changes nothing in the outcome, and \<open>"1,2,3"\<close> is
  converted as \<open>"123"\<close>, which is read as 123. Grouping is never examined. Loading
  fails in two cases only: with KeyError when there is no record at all, and with
  ValueError when the conversion rejects the comma-free text of some record; otherwise
  each revenue is the conversion of its comma-free text. So, for a conversion that
  accepts every plain decimal text, loading at least one record fails only if the
  comma-free text of some record is not a plain decimal.
\<close>

theorem load_data_strips_commas:
  "CHR '','' \<notin> set (str_replace_comma s)
   \<and> str_replace_comma (s @ '','' @ t) = str_replace_comma (s @ t)
   \<and> (CHR '','' \<notin> set s \<longrightarrow> str_replace_comma s = s)
   \<and> load_data to_float (pre @ r\<lparr>Omset := s @ '','' @ t\<rparr> # post)
       = load_data to_float (pre @ r\<lparr>Omset := s @ t\<rparr> # post)
   \<and> (load_data to_float rows = Inl e
        \<longleftrightarrow> (rows = [] \<and> e = KeyError)
            \<or> (e = ValueError
                \<and> (\<exists>r\<in>set rows. to_float (str_replace_comma (Omset r)) = None)))
   \<and> (load_data to_float rows = Inr df \<longrightarrow>
        map Omset df = map (\<lambda>r. the (to_float (str_replace_comma (Omset r)))) rows)
   \<and> ((\<forall>t. decimal_float t \<noteq> None \<longrightarrow> to_float t \<noteq> None)
        \<and> rows \<noteq> [] \<and> load_data to_float rows = Inl e \<longrightarrow>
        (\<exists>r\<in>set rows. decimal_float (str_replace_comma (Omset r)) = None))
   \<and> str_replace_comma ''1,2,3'' = ''123''
   \<and> decimal_float (str_replace_comma ''1,2,3'') = Some 123"
proof (intro conjI impI)
  assume a: "(\<forall>t. decimal_float t \<noteq> None \<longrightarrow> to_float t \<noteq> None)
        \<and> rows \<noteq> [] \<and> load_data to_float rows = Inl e"
  then obtain r where r: "r \<in> set rows" "to_float (str_replace_comma (Omset r)) = None"
    by (auto simp: load_data_fails_iff)
  from a r(2) have "decimal_float (str_replace_comma (Omset r)) = None"
    by blast
  with r(1) show "\<exists>r\<in>set rows. decimal_float (str_replace_comma (Omset r)) = None" ..
next
  show "CHR '','' \<notin> set (str_replace_comma s)"
    by (simp add: str_replace_comma_def)
  show c: "str_replace_comma (s @ '','' @ t) = str_replace_comma (s @ t)"
    by (simp add: str_replace_comma_def)
  show "str_replace_comma s = s" if "CHR '','' \<notin> set s"
    using that unfolding str_replace_comma_def by (intro filter_True) auto
  have "clean_omset to_float (pre @ r\<lparr>Omset := s @ '','' @ t\<rparr> # post)
       = clean_omset to_float (pre @ r\<lparr>Omset := s @ t\<rparr> # post)"
    by (induction pre)
      (simp_all add: str_replace_comma_def split: option.splits sum.splits)
  then show "load_data to_float (pre @ r\<lparr>Omset := s @ '','' @ t\<rparr> # post)
       = load_data to_float (pre @ r\<lparr>Omset := s @ t\<rparr> # post)"
    by (simp add: load_data_def)
  show "load_data to_float rows = Inl e
        \<longleftrightarrow> (rows = [] \<and> e = KeyError)
            \<or> (e = ValueError
                \<and> (\<exists>r\<in>set rows. to_float (str_replace_comma (Omset r)) = None))"
    by (rule load_data_fails_iff)
  show "map Omset df = map (\<lambda>r. the (to_float (str_replace_comma (Omset r)))) rows"
    if "load_data to_float rows = Inr df"
    using that by (rule load_data_Omset)
  show "str_replace_comma ''1,2,3'' = ''123''"
    by (simp add: str_replace_comma_def)
  show "decimal_float (str_replace_comma ''1,2,3'') = Some 123"
    by (simp add: str_replace_comma_def decimal_float_def unsigned_decimal_def
        digits_value_def is_digit_def)
qed

theorem load_data_strips_commas_witness:
  "CHR '','' \<notin> set ''1000''
   \<and> load_data decimal_float
        [\<lparr>Data_id = ''a'', Nama_Toko = ''s'', nama_Produk = ''p'', Omset = ''1,2,3'',
          Kluster_1 = JStr ''1'', Kluster_2 = JStr ''0'', Kluster_3 = JStr ''0''\<rparr>,
         \<lparr>Data_id = ''b'', Nama_Toko = ''t'', nama_Produk = ''q'', Omset = '',12,34.5,'',
          Kluster_1 = JStr ''0'', Kluster_2 = JStr ''1'', Kluster_3 = JStr ''0''\<rparr>]
       = Inr [\<lparr>Data_id = ''a'', Nama_Toko = ''s'', nama_Produk = ''p'', Omset = 123,
                Kluster_1 = JStr ''1'', Kluster_2 = JStr ''0'', Kluster_3 = JStr ''0''\<rparr>,
              \<lparr>Data_id = ''b'', Nama_Toko = ''t'', nama_Produk = ''q'', Omset = 1234.5,
                Kluster_1 = JStr ''0'', Kluster_2 = JStr ''1'', Kluster_3 = JStr ''0''\<rparr>]
   \<and> [\<lparr>Data_id = ''c'', Nama_Toko = ''u'', nama_Produk = ''p'', Omset = ''12,3x'',
          Kluster_1 = JStr ''1'', Kluster_2 = JStr ''0'', Kluster_3 = JStr ''0''\<rparr>] \<noteq> []
   \<and> load_data decimal_float
        [\<lparr>Data_id = ''c'', Nama_Toko = ''u'', nama_Produk = ''p'', Omset = ''12,3x'',
          Kluster_1 = JStr ''1'', Kluster_2 = JStr ''0'', Kluster_3 = JStr ''0''\<rparr>]
       = Inl ValueError
   \<and> decimal_float (str_replace_comma ''12,3x'') = None"
  using load_data_strips_commas [of "''1000''" "[]" decimal_float "[]"
        "\<lparr>Data_id = ''c'', Nama_Toko = ''u'', nama_Produk = ''p'', Omset = ''12,3x'',
          Kluster_1 = JStr ''1'', Kluster_2 = JStr ''0'', Kluster_3 = JStr ''0''\<rparr>" "[]"
        "[\<lparr>Data_id = ''c'', Nama_Toko = ''u'', nama_Produk = ''p'', Omset = ''12,3x'',
          Kluster_1 = JStr ''1'', Kluster_2 = JStr ''0'', Kluster_3 = JStr ''0''\<rparr>]"
        ValueError "[]"]
    load_data_strips_commas [of "''1000''" "[]" decimal_float "[]"
        "\<lparr>Data_id = ''c'', Nama_Toko = ''u'', nama_Produk = ''p'', Omset = ''12,3x'',
          Kluster_1 = JStr ''1'', Kluster_2 = JStr ''0'', Kluster_3 = JStr ''0''\<rparr>" "[]"
        "[\<lparr>Data_id = ''a'', Nama_Toko = ''s'', nama_Produk = ''p'', Omset = ''1,2,3'',
          Kluster_1 = JStr ''1'', Kluster_2 = JStr ''0'', Kluster_3 = JStr ''0''\<rparr>,
         \<lparr>Data_id = ''b'', Nama_Toko = ''t'', nama_Produk = ''q'', Omset = '',12,34.5,'',
          Kluster_1 = JStr ''0'', Kluster_2 = JStr ''1'', Kluster_3 = JStr ''0''\<rparr>]"
        ValueError
        "[\<lparr>Data_id = ''a'', Nama_Toko = ''s'', nama_Produk = ''p'', Omset = 123,
           Kluster_1 = JStr ''1'', Kluster_2 = JStr ''0'', Kluster_3 = JStr ''0''\<rparr>,
          \<lparr>Data_id = ''b'', Nama_Toko = ''t'', nama_Produk = ''q'', Omset = 1234.5,
           Kluster_1 = JStr ''0'', Kluster_2 = JStr ''1'', Kluster_3 = JStr ''0''\<rparr>]"]
  by (simp add: load_data_def str_replace_comma_def decimal_float_def unsigned_decimal_def
      digits_value_def is_digit_def)

text \<open>
  With no record the loader fails although no revenue text is there to be rejected:
  the frame of an empty list has no revenue column.
\<close>

theorem load_data_empty_counterexample:
  "load_data decimal_float [] = Inl KeyError
   \<and> map (\<lambda>r. decimal_float (str_replace_comma (Omset r))) ([] :: string row list) = []"
  by (simp add: load_data_def)

subsection \<open>Dominant products\<close>

lemma Counter_snoc: "Counter (xs @ [x]) = counter_add x (Counter xs)"
  by (simp add: Counter_def)

lemma keys_counter_add:
  "map fst (counter_add x c) = (if x \<in> fst ` set c then map fst c else map fst c @ [x])"
  by (induction c) force+

lemma map_of_counter_add:
  "map_of (counter_add x c) y =
     (if y = x then Some (case map_of c x of None \<Rightarrow> 1 | Some k \<Rightarrow> k + 1) else map_of c y)"
  by (induction c) (auto)

lemma keys_Counter: "fst ` set (Counter xs) = set xs"
proof (induction xs rule: rev_induct)
  case Nil
  show ?case by (simp add: Counter_def)
next
  case (snoc x xs)
  have "set (map fst (Counter (xs @ [x]))) = insert x (set xs)"
    unfolding Counter_snoc keys_counter_add using snoc by auto
  then show ?case by simp
qed

lemma distinct_Counter: "distinct (map fst (Counter xs))"
proof (induction xs rule: rev_induct)
  case Nil
  show ?case by (simp add: Counter_def)
next
  case (snoc x xs)
  then show ?case
    by (auto simp: Counter_snoc keys_counter_add)
qed

lemma map_of_Counter:
  "map_of (Counter xs) y = (if y \<in> set xs then Some (count_list xs y) else None)"
proof (induction xs rule: rev_induct)
  case Nil
  show ?case by (simp add: Counter_def)
next
  case (snoc x xs)
  then show ?case
    by (auto simp: Counter_snoc map_of_counter_add)
qed

lemma Counter_counts:
  assumes "(y, k) \<in> set (Counter xs)"
  shows "k = count_list xs y" "y \<in> set xs"
proof -
  from assms have "map_of (Counter xs) y = Some k"
    using distinct_Counter [of xs] by simp
  then show "k = count_list xs y" "y \<in> set xs"
    by (auto simp: map_of_Counter split: if_splits)
qed

lemma first_index_snoc:
  "first_index (xs @ [x]) y = (if y \<in> set xs then first_index xs y else length xs + (if x = y then 0 else 1))"
proof (cases "y \<in> set xs")
  case True
  then have "takeWhile (\<lambda>z. z \<noteq> y) (xs @ [x]) = takeWhile (\<lambda>z. z \<noteq> y) xs"
    by (intro takeWhile_append1 [of y]) simp_all
  with True show ?thesis by (simp add: first_index_def)
next
  case False
  then have "takeWhile (\<lambda>z. z \<noteq> y) (xs @ [x]) = xs @ takeWhile (\<lambda>z. z \<noteq> y) [x]"
    by (intro takeWhile_append2) auto
  with False show ?thesis by (simp add: first_index_def)
qed

lemma first_index_less: "y \<in> set xs \<Longrightarrow> first_index xs y < length xs"
  by (induction xs) (auto simp: first_index_def)

lemma keys_Counter_order:
  "sorted_wrt (\<lambda>a b. first_index xs a < first_index xs b) (map fst (Counter xs))"
proof (induction xs rule: rev_induct)
  case Nil
  show ?case by (simp add: Counter_def)
next
  case (snoc x xs)
  have old: "sorted_wrt (\<lambda>a b. first_index (xs @ [x]) a < first_index (xs @ [x]) b)
      (map fst (Counter xs))"
    using snoc
    by (rule sorted_wrt_mono_rel [rotated]) (simp add: keys_Counter first_index_snoc)
  show ?case
  proof (cases "x \<in> set xs")
    case True
    then show ?thesis
      using old keys_Counter [of xs] by (simp add: Counter_snoc keys_counter_add)
  next
    case False
    then have "map fst (Counter (xs @ [x])) = map fst (Counter xs) @ [x]"
      using keys_Counter [of xs] by (simp add: Counter_snoc keys_counter_add)
    moreover have "\<forall>a\<in>set (map fst (Counter xs)). first_index (xs @ [x]) a < first_index (xs @ [x]) x"
      using False by (simp add: keys_Counter first_index_snoc first_index_less)
    ultimately show ?thesis
      using old by (simp add: sorted_wrt_append)
  qed
qed

lemma insort_key_lex:
  "sorted_wrt (\<lambda>a b. f a < f b \<or> (f a = f b \<and> g a < g b)) ys \<Longrightarrow>
   \<forall>y\<in>set ys. g x < g y \<Longrightarrow>
   sorted_wrt (\<lambda>a b. f a < f b \<or> (f a = f b \<and> g a < g b)) (insort_key f x ys)"
  for f :: "'a \<Rightarrow> int" and g :: "'a \<Rightarrow> nat"
proof (induction ys)
  case Nil
  show ?case by simp
next
  case (Cons y ys)
  show ?case
  proof (cases "f x \<le> f y")
    case True
    have "f x < f z \<or> (f x = f z \<and> g x < g z)" if "z \<in> set (y # ys)" for z
    proof -
      have "f y \<le> f z" using that Cons.prems(1) by auto
      with True have "f x \<le> f z" by simp
      moreover have "g x < g z" using that Cons.prems(2) by auto
      ultimately show ?thesis by auto
    qed
    with True Cons.prems(1) show ?thesis by simp
  next
    case False
    have "sorted_wrt (\<lambda>a b. f a < f b \<or> (f a = f b \<and> g a < g b)) (insort_key f x ys)"
      using Cons by simp
    with False Cons.prems(1) show ?thesis
      by (auto simp: set_insort_key)
  qed
qed

lemma sort_key_lex:
  "sorted_wrt (\<lambda>a b. g a < g b) xs \<Longrightarrow>
   sorted_wrt (\<lambda>a b. f a < f b \<or> (f a = f b \<and> g a < g b)) (sort_key f xs)"
  for f :: "'a \<Rightarrow> int" and g :: "'a \<Rightarrow> nat"
proof (induction xs)
  case Nil
  show ?case by simp
next
  case (Cons x xs)
  then show ?case
    by (simp add: insort_key_lex)
qed

lemma ranked_set: "set (ranked ps) = set ps"
  by (simp add: ranked_def keys_Counter)

lemma ranked_distinct: "distinct (ranked ps)"
  using distinct_Counter [of ps] by (simp add: ranked_def distinct_map)

lemma ranked_length: "length (ranked ps) = card (set ps)"
  using distinct_card [OF ranked_distinct, of ps] by (simp add: ranked_set)

lemma ranked_sorted:
  "sorted_wrt (\<lambda>a b. count_list ps b < count_list ps a
        \<or> (count_list ps a = count_list ps b \<and> first_index ps a < first_index ps b))
     (ranked ps)"
proof -
  let ?f = "\<lambda>(x, k). - int k" and ?g = "\<lambda>a. first_index ps (fst a)"
  have "sorted_wrt (\<lambda>a b. ?g a < ?g b) (Counter ps)"
    using keys_Counter_order [of ps] by (simp add: sorted_wrt_map)
  then have "sorted_wrt (\<lambda>a b. ?f a < ?f b \<or> (?f a = ?f b \<and> ?g a < ?g b))
      (sort_key ?f (Counter ps))"
    by (rule sort_key_lex)
  then have "sorted_wrt (\<lambda>a b. count_list ps (fst b) < count_list ps (fst a)
        \<or> (count_list ps (fst a) = count_list ps (fst b) \<and> ?g a < ?g b))
      (sort_key ?f (Counter ps))"
  proof (rule sorted_wrt_mono_rel [rotated])
    fix a b
    assume a: "a \<in> set (sort_key ?f (Counter ps))" and b: "b \<in> set (sort_key ?f (Counter ps))"
      and r: "?f a < ?f b \<or> (?f a = ?f b \<and> ?g a < ?g b)"
    from a have "snd a = count_list ps (fst a)"
      using Counter_counts(1) [of "fst a" "snd a" ps] by simp
    moreover from b have "snd b = count_list ps (fst b)"
      using Counter_counts(1) [of "fst b" "snd b" ps] by simp
    ultimately show "count_list ps (fst b) < count_list ps (fst a)
        \<or> (count_list ps (fst a) = count_list ps (fst b) \<and> ?g a < ?g b)"
      using r by (auto simp: case_prod_beta)
  qed
  then show ?thesis
    by (simp add: ranked_def sorted_wrt_map)
qed

lemma most_common_ranked: "map fst (most_common n (Counter ps)) = take n (ranked ps)"
  by (simp add: most_common_def ranked_def take_map)

lemma top_products:
  fixes ps :: "'a list"
  defines "dp \<equiv> map fst (most_common 3 (Counter ps))"
  shows "length dp = min 3 (card (set ps))"
    and "distinct dp"
    and "set dp \<subseteq> set ps"
    and "\<And>i j. i < j \<Longrightarrow> j < length dp \<Longrightarrow>
           count_list ps (dp ! j) < count_list ps (dp ! i)
           \<or> (count_list ps (dp ! i) = count_list ps (dp ! j)
               \<and> first_index ps (dp ! i) < first_index ps (dp ! j))"
    and "\<And>q i. q \<in> set ps \<Longrightarrow> q \<notin> set dp \<Longrightarrow> i < length dp \<Longrightarrow>
           count_list ps q < count_list ps (dp ! i)
           \<or> (count_list ps (dp ! i) = count_list ps q
               \<and> first_index ps (dp ! i) < first_index ps q)"
proof -
  have dp: "dp = take 3 (ranked ps)"
    by (simp add: dp_def most_common_ranked)
  show "length dp = min 3 (card (set ps))"
    by (simp add: dp ranked_length min.commute)
  show "distinct dp"
    by (simp add: dp ranked_distinct)
  show "set dp \<subseteq> set ps"
    using set_take_subset [of 3 "ranked ps"] by (simp add: dp ranked_set)
  note srt = sorted_wrt_nth_less [OF ranked_sorted [of ps]]
  show "count_list ps (dp ! j) < count_list ps (dp ! i)
           \<or> (count_list ps (dp ! i) = count_list ps (dp ! j)
               \<and> first_index ps (dp ! i) < first_index ps (dp ! j))"
    if "i < j" "j < length dp" for i j
  proof -
    from that have "j < length (ranked ps)" "j < 3" by (simp_all add: dp)
    with that srt [of i j] show ?thesis by (simp add: dp)
  qed
  show "count_list ps q < count_list ps (dp ! i)
           \<or> (count_list ps (dp ! i) = count_list ps q
               \<and> first_index ps (dp ! i) < first_index ps q)"
    if "q \<in> set ps" "q \<notin> set dp" "i < length dp" for q i
  proof -
    from that(1) obtain m where m: "m < length (ranked ps)" "ranked ps ! m = q"
      by (metis in_set_conv_nth ranked_set)
    have "\<not> m < 3"
    proof
      assume "m < 3"
      with m have "q \<in> set (take 3 (ranked ps))"
        by (auto simp: in_set_conv_nth)
      with that(2) show False by (simp add: dp)
    qed
    with that(3) have "i < m" by (simp add: dp)
    from srt [OF this m(1)] that(3) m(2) show ?thesis by (simp add: dp)
  qed
qed

text \<open>
  Claim C4. For each cluster 1, 2, 3 let \<open>ps\<close> be the product names of the records
  assigned to it, in the order of the records. The dominant products are distinct names
  of \<open>ps\<close>, three of them or, when \<open>ps\<close> has fewer distinct names, all of these. They
  are in order of falling frequency in \<open>ps\<close>, and of two names of equal frequency the one
  met first in \<open>ps\<close> comes first. Every name of \<open>ps\<close> left out ranks after each of them
  in that same order.
\<close>

theorem dominant_products_top3:
  assumes "ps = map nama_Produk (filter (\<lambda>r. Calculated_Cluster r = c) results_df)"
    and "c \<in> {1, 2, 3}"
  shows "\<exists>p. analyze_cluster_characteristics results_df c = Some p
    \<and> length (dominant_products p) = min 3 (card (set ps))
    \<and> distinct (dominant_products p)
    \<and> set (dominant_products p) \<subseteq> set ps
    \<and> (\<forall>i j. i < j \<and> j < length (dominant_products p) \<longrightarrow>
          count_list ps (dominant_products p ! j) \<le> count_list ps (dominant_products p ! i)
          \<and> (count_list ps (dominant_products p ! i) = count_list ps (dominant_products p ! j)
              \<longrightarrow> first_index ps (dominant_products p ! i)
                    < first_index ps (dominant_products p ! j)))
    \<and> (\<forall>q i. q \<in> set ps \<and> q \<notin> set (dominant_products p)
            \<and> i < length (dominant_products p) \<longrightarrow>
          count_list ps q \<le> count_list ps (dominant_products p ! i)
          \<and> (count_list ps (dominant_products p ! i) = count_list ps q
              \<longrightarrow> first_index ps (dominant_products p ! i) < first_index ps q))"
proof -
  define dp where "dp = map fst (most_common 3 (Counter ps))"
  have p: "analyze_cluster_characteristics results_df c = Some (cluster_profile results_df c)"
    using assms(2) by (auto simp: analyze_lookup)
  have d: "dominant_products (cluster_profile results_df c) = dp"
    by (simp add: cluster_profile_def Let_def dp_def assms(1))
  note tp = top_products [where ps = ps, folded dp_def]
  have ord: "\<forall>i j. i < j \<and> j < length dp \<longrightarrow>
          count_list ps (dp ! j) \<le> count_list ps (dp ! i)
          \<and> (count_list ps (dp ! i) = count_list ps (dp ! j)
              \<longrightarrow> first_index ps (dp ! i) < first_index ps (dp ! j))"
    using tp(4) by (metis less_imp_le_nat less_irrefl_nat order_refl)
  have out: "\<forall>q i. q \<in> set ps \<and> q \<notin> set dp \<and> i < length dp \<longrightarrow>
          count_list ps q \<le> count_list ps (dp ! i)
          \<and> (count_list ps (dp ! i) = count_list ps q
              \<longrightarrow> first_index ps (dp ! i) < first_index ps q)"
    using tp(5) by (metis less_imp_le_nat less_irrefl_nat order_refl)
  have all: "length dp = min 3 (card (set ps)) \<and> distinct dp \<and> set dp \<subseteq> set ps
    \<and> (\<forall>i j. i < j \<and> j < length dp \<longrightarrow>
          count_list ps (dp ! j) \<le> count_list ps (dp ! i)
          \<and> (count_list ps (dp ! i) = count_list ps (dp ! j)
              \<longrightarrow> first_index ps (dp ! i) < first_index ps (dp ! j)))
    \<and> (\<forall>q i. q \<in> set ps \<and> q \<notin> set dp \<and> i < length dp \<longrightarrow>
          count_list ps q \<le> count_list ps (dp ! i)
          \<and> (count_list ps (dp ! i) = count_list ps q
              \<longrightarrow> first_index ps (dp ! i) < first_index ps q))"
    using tp(1,2,3) ord out by (intro conjI)
  show ?thesis
    unfolding p using all [unfolded d [symmetric]] by blast
qed

theorem dominant_products_top3_witness:
  "(1::nat) \<in> {1, 2, 3}
   \<and> (\<exists>p. analyze_cluster_characteristics
          (map (\<lambda>(n, k). \<lparr>Data_id = ''i'', Nama_Toko = ''t'', nama_Produk = n, Omset = 1,
                           Calculated_Cluster = k, Existing_Cluster = None, Distances = []\<rparr>)
             [(''a'', 1), (''b'', 1), (''e'', 2), (''c'', 1), (''c'', 1), (''d'', 1),
              (''b'', 1), (''e'', 2), (''d'', 1)]) 1 = Some p
        \<and> dominant_products p = [''b'', ''c'', ''d''])
   \<and> (\<exists>p. analyze_cluster_characteristics
          (map (\<lambda>(n, k). \<lparr>Data_id = ''i'', Nama_Toko = ''t'', nama_Produk = n, Omset = 1,
                           Calculated_Cluster = k, Existing_Cluster = None, Distances = []\<rparr>)
             [(''a'', 1), (''b'', 1), (''e'', 2), (''c'', 1), (''c'', 1), (''d'', 1),
              (''b'', 1), (''e'', 2), (''d'', 1)]) 2 = Some p
        \<and> dominant_products p = [''e''])"
  using dominant_products_top3 [OF refl, of 1
      "map (\<lambda>(n, k). \<lparr>Data_id = ''i'', Nama_Toko = ''t'', nama_Produk = n, Omset = 1,
                       Calculated_Cluster = k, Existing_Cluster = None, Distances = []\<rparr>)
         [(''a'', 1), (''b'', 1), (''e'', 2), (''c'', 1), (''c'', 1), (''d'', 1),
          (''b'', 1), (''e'', 2), (''d'', 1)]"]
  by (simp add: analyze_lookup cluster_profile_def Counter_def most_common_def)

end
